theory Spec2Isabelle
  imports Complex_Main
begin

unbundle bit_operations_syntax

section \<open>Register model\<close>

text \<open>
  The dataclass \<open>RegItem\<close> of \<open>em6400ng_gui.py\<close>. Python integers are unbounded, so
  \<open>offset\<close>, \<open>fc\<close> and \<open>count\<close> are \<open>int\<close>. The \<open>address\<close> is a property computed from
  \<open>offset\<close>: the record has no field for it.
\<close>

record RegItem =
  offset :: int
  name :: string
  unit :: string
  fc :: int
  dtype :: string
  count :: int
  scale :: real

definition address :: "RegItem \<Rightarrow> int" where
  "address r = offset r - 1"

text \<open>The constructor call \<open>RegItem(offset, name, unit, fc=f)\<close> with the defaults of the
  remaining fields (\<open>dtype = "float32"\<close>, \<open>count = 2\<close>, \<open>scale = 1.0\<close>).\<close>

definition mk_reg :: "int \<Rightarrow> string \<Rightarrow> string \<Rightarrow> int \<Rightarrow> RegItem" where
  "mk_reg off nm un f =
     \<lparr>offset = off, name = nm, unit = un, fc = f, dtype = ''float32'', count = 2, scale = 1\<rparr>"

definition DEFAULT_REGS :: "RegItem list" where
  "DEFAULT_REGS =
   [mk_reg 2699 ''Active energy delivered (into load)'' ''kWh'' 3,
    mk_reg 2701 ''Active energy received (out of load)'' ''kWh'' 3,
    mk_reg 2703 ''Active energy delivered + received'' ''kWh'' 3,
    mk_reg 2999 ''Current A'' ''A'' 4,
    mk_reg 3001 ''Current B'' ''A'' 4,
    mk_reg 3003 ''Current C'' ''A'' 4,
    mk_reg 3009 ''Current avg'' ''A'' 4,
    mk_reg 3019 ''Voltage A B'' ''V'' 4,
    mk_reg 3021 ''Voltage B C'' ''V'' 4,
    mk_reg 3023 ''Voltage C A'' ''V'' 4,
    mk_reg 3025 ''Voltage L L avg'' ''V'' 4,
    mk_reg 3053 ''Active power A'' ''kW'' 4,
    mk_reg 3055 ''Active power B'' ''kW'' 4,
    mk_reg 3057 ''Active power C'' ''kW'' 4,
    mk_reg 3059 ''Active power total'' ''kW'' 4,
    mk_reg 3061 ''Reactive power A'' ''kVAR'' 4,
    mk_reg 3063 ''Reactive power B'' ''kVAR'' 4,
    mk_reg 3065 ''Reactive power C'' ''kVAR'' 4,
    mk_reg 3067 ''Reactive power total'' ''kVAR'' 4,
    mk_reg 3069 ''Apparent power A'' ''kVA'' 4,
    mk_reg 3071 ''Apparent power B'' ''kVA'' 4,
    mk_reg 3073 ''Apparent power C'' ''kVA'' 4,
    mk_reg 3075 ''Apparent power total'' ''kVA'' 4]"

section \<open>Decoding two registers into a float\<close>

text \<open>
  \<open>struct.pack(">I", raw)\<close> writes an unsigned 32-bit integer as four bytes, most
  significant first, and raises \<open>struct.error\<close> outside \<open>0 .. 2^32 - 1\<close>.
  \<open>struct.unpack(">f", bytes)\<close> reads four bytes, most significant first, as an IEEE-754
  single (one sign bit, eight exponent bits, 23 fraction bits) and returns it as a Python
  float, that is, widened to a double. The widening is exact for every number and for the
  infinities, and it keeps the sign and the payload of a NaN, but a signalling NaN (top
  fraction bit clear) comes out quiet (top fraction bit set), as CPython on the usual
  hardware does: the bytes \<open>7F 80 00 01\<close> give the float that packs back to \<open>7F C0 00 01\<close>.
  The float is kept as the three fields of the single it packs back to; \<open>float32_bits\<close> is
  the 32-bit pattern and \<open>float32_value\<close> the number a finite pattern denotes (\<open>None\<close> for
  the infinities and NaNs).
\<close>

datatype exn = StructError

record float32 =
  sign :: int
  exponent :: int
  fraction :: int

definition struct_pack_I :: "int \<Rightarrow> exn + int list" where
  "struct_pack_I raw =
     (if 0 \<le> raw \<and> raw < 2 ^ 32
      then Inr [drop_bit 24 raw AND 0xFF, drop_bit 16 raw AND 0xFF,
                drop_bit 8 raw AND 0xFF, raw AND 0xFF]
      else Inl StructError)"

definition quiet_nan :: "float32 \<Rightarrow> float32" where
  "quiet_nan f =
     (if exponent f = 255 \<and> fraction f \<noteq> 0 then f\<lparr>fraction := fraction f OR 0x400000\<rparr> else f)"

fun struct_unpack_f :: "int list \<Rightarrow> exn + float32" where
  "struct_unpack_f [b0, b1, b2, b3] =
     Inr (quiet_nan
            \<lparr>sign = drop_bit 7 b0,
             exponent = push_bit 1 (b0 AND 0x7F) OR drop_bit 7 b1,
             fraction = push_bit 16 (b1 AND 0x7F) OR push_bit 8 b2 OR b3\<rparr>)"
| "struct_unpack_f bs = Inl StructError"

definition float32_bits :: "float32 \<Rightarrow> int" where
  "float32_bits f = push_bit 31 (sign f) OR push_bit 23 (exponent f) OR fraction f"

definition float32_value :: "float32 \<Rightarrow> real option" where
  "float32_value f =
     (let s = (if sign f = 0 then 1 else - 1 :: real);
          e = exponent f;
          m = real_of_int (fraction f) / 2 ^ 23
      in if e = 255 then None
         else if e = 0 then Some (s * m / 2 ^ 126)
         else if 127 \<le> e then Some (s * (1 + m) * 2 ^ nat (e - 127))
         else Some (s * (1 + m) / 2 ^ nat (127 - e)))"

text \<open>
  \<open>decode_float32(regs, swap_words)\<close>. \<open>regs\<close> may be \<open>None\<close>; its elements are Python
  integers (\<open>int(regs[0])\<close> is the identity on them). The result is \<open>Inr None\<close> for the
  early \<open>return None\<close>, \<open>Inr (Some f)\<close> for a decoded float and \<open>Inl e\<close> if \<open>struct\<close> raises.
\<close>

definition decode_float32 :: "int list option \<Rightarrow> bool \<Rightarrow> exn + float32 option" where
  "decode_float32 regs swap_words =
     (case regs of
        None \<Rightarrow> Inr None
      | Some rs \<Rightarrow>
          if length rs < 2 then Inr None
          else
            let hi0 = (rs ! 0) AND 0xFFFF;
                lo0 = (rs ! 1) AND 0xFFFF;
                hi = (if swap_words then lo0 else hi0);
                lo = (if swap_words then hi0 else lo0);
                raw = push_bit 16 hi OR lo
            in (case struct_pack_I raw of
                  Inl e \<Rightarrow> Inl e
                | Inr bs \<Rightarrow>
                    (case struct_unpack_f bs of
                       Inl e \<Rightarrow> Inl e
                     | Inr f \<Rightarrow> Inr (Some f))))"

section \<open>Python library functions and the serial transport\<close>

text \<open>
  The library functions the program applies to the content of its entry fields are
  parameters of the model: \<open>py_int\<close> is \<open>int(s)\<close>, with \<open>None\<close> where it raises
  \<open>ValueError\<close>; \<open>py_strip\<close> is \<open>s.strip()\<close> and \<open>py_upper\<close> is \<open>s.upper()\<close>;
  \<open>py_sleep poll_ms\<close> tells whether \<open>time.sleep(poll_ms / 1000.0)\<close> returns: the division
  raises \<open>OverflowError\<close> for an integer beyond the range of a float, and \<open>time.sleep\<close>
  raises it for a length beyond the range of the platform's clock. The theorems stated for
  a library \<open>L\<close> hold for all of them.
\<close>

record pylib =
  py_int :: "string \<Rightarrow> int option"
  py_strip :: "string \<Rightarrow> string"
  py_upper :: "string \<Rightarrow> string"
  py_sleep :: "int \<Rightarrow> bool"

text \<open>An instance for field contents that are plain ASCII text, to run the model on
  concrete inputs. \<open>strip\<close> removes the characters 9 to 13, 28 to 31 and 32 at both ends;
  \<open>int\<close> removes only 9 to 13 and 32, and then wants an optional sign followed by decimal
  digits, single underscores allowed between digits; letters \<open>a..z\<close> are upper-cased. A
  sleep is accepted when its length in nanoseconds fits 64 bits, the limit of CPython's
  clock (a platform may refuse a shorter one).\<close>

definition is_space :: "char \<Rightarrow> bool" where
  "is_space c = ((of_char c :: nat) \<in> {9, 10, 11, 12, 13, 28, 29, 30, 31, 32})"

definition is_c_space :: "char \<Rightarrow> bool" where
  "is_c_space c = ((of_char c :: nat) \<in> {9, 10, 11, 12, 13, 32})"

definition is_digit :: "char \<Rightarrow> bool" where
  "is_digit c = (48 \<le> (of_char c :: nat) \<and> (of_char c :: nat) \<le> 57)"

definition ascii_strip :: "string \<Rightarrow> string" where
  "ascii_strip s = rev (dropWhile is_space (rev (dropWhile is_space s)))"

definition ascii_upper :: "string \<Rightarrow> string" where
  "ascii_upper s =
     map (\<lambda>c. if 97 \<le> (of_char c :: nat) \<and> (of_char c :: nat) \<le> 122
              then char_of ((of_char c :: nat) - 32) else c) s"

fun ascii_digits :: "string \<Rightarrow> bool \<Rightarrow> int \<Rightarrow> int option" where
  "ascii_digits [] prev acc = (if prev then Some acc else None)"
| "ascii_digits (c # cs) prev acc =
     (if is_digit c then ascii_digits cs True (acc * 10 + (int (of_char c) - 48))
      else if c = CHR ''_'' \<and> prev \<and> cs \<noteq> [] \<and> is_digit (hd cs) then ascii_digits cs False acc
      else None)"

definition ascii_int :: "string \<Rightarrow> int option" where
  "ascii_int s =
     (case rev (dropWhile is_c_space (rev (dropWhile is_c_space s))) of
        [] \<Rightarrow> None
      | c # cs \<Rightarrow>
          if c = CHR ''-'' then map_option uminus (ascii_digits cs False 0)
          else if c = CHR ''+'' then ascii_digits cs False 0
          else ascii_digits (c # cs) False 0)"

definition ascii_sleep :: "int \<Rightarrow> bool" where
  "ascii_sleep poll_ms = (poll_ms * 1000000 < 2 ^ 63)"

definition ascii_lib :: pylib where
  "ascii_lib =
     \<lparr>py_int = ascii_int, py_strip = ascii_strip, py_upper = ascii_upper, py_sleep = ascii_sleep\<rparr>"

text \<open>
  \<open>ModbusSerialClient\<close> is the external transport. The client object keeps the arguments of
  its constructor. A read request is the call \<open>read_holding_registers(address, count,
  slave=slave)\<close> or \<open>read_input_registers(...)\<close>; the call either raises, or returns a
  response whose \<open>isError()\<close> is true, or returns a response with its \<open>registers\<close>.
  What the serial line and the meter do is not part of the program: the transport is a
  record of functions over a state \<open>'d\<close> of the outside world.
\<close>

record ModbusSerialClient =
  port :: string
  baudrate :: int
  parity :: string
  stopbits :: int
  bytesize :: int
  timeout :: real

datatype read_fn = ReadHolding | ReadInput

record request =
  fn :: read_fn
  req_address :: int
  req_count :: int
  slave :: int

datatype response = Raised | IsError | Registers "int list option"

record 'd transport =
  t_connect :: "ModbusSerialClient \<Rightarrow> 'd \<Rightarrow> bool \<times> 'd"
  t_read :: "request \<Rightarrow> 'd \<Rightarrow> response \<times> 'd"
  t_close :: "'d \<Rightarrow> 'd"

section \<open>The application object\<close>

text \<open>
  The fields of \<open>EM6400NGApp\<close> that \<open>_connect\<close>, \<open>_disconnect\<close>, \<open>_poll_loop\<close> and
  \<open>_poll_once\<close> read or write. The effects on the user interface are kept as data:
  \<open>dialogs\<close> is the list of \<open>messagebox.showerror\<close> calls, \<open>log_text\<close> the lines written by
  \<open>_log\<close> (without their time stamps), \<open>after_queue\<close> the calls
  \<open>self.after(0, self._set_tree_value, idx, val_txt)\<close> in the order they were made.
  A cell text is \<open>"ERR"\<close>, \<open>"EXC"\<close>, \<open>"N/A"\<close> or the formatted number
  \<open>f"{(v * reg.scale):.4f}"\<close>; the product and its formatting are floating-point operations
  and stay uninterpreted in \<open>Formatted v scale\<close>.

  \<open>threads\<close> are the background threads started by \<open>_connect\<close>, each with the place it has
  reached in \<open>_poll_loop\<close>: at the test of \<open>while self.polling\<close>, inside
  \<open>time.sleep(poll_ms / 1000.0)\<close> with some milliseconds left, returned from the loop, or
  ended by an exception that nothing caught. A turn of the loop, from the test to the
  sleep, is one step of the model: a thread in the middle of a cycle is not represented.
\<close>

datatype dialog = SelectPort | InvalidSettings | ParityMustBe | FailedToOpen

datatype log_line = ConnectedOK | Disconnected | RegError string | RegException string

datatype cell = ERR | EXC | NA | Formatted float32 real

datatype btn_state = Normal | Disabled

datatype status_text = NotConnected | Connected string int string int

datatype phase = LoopTest | Sleeping int | Exited | Crashed

record app =
  client :: "ModbusSerialClient option"
  connected :: bool
  polling :: bool
  poll_thread :: "nat option"
  threads :: "phase list"
  regs :: "RegItem list"
  port_var :: string
  baud_var :: string
  parity_var :: string
  slave_var :: string
  poll_ms_var :: string
  swap_words_var :: bool
  connect_btn :: btn_state
  disconnect_btn :: btn_state
  status_var :: status_text
  dialogs :: "dialog list"
  log_text :: "log_line list"
  after_queue :: "(nat \<times> cell) list"

definition showerror :: "dialog \<Rightarrow> app \<Rightarrow> app" where
  "showerror m a = a\<lparr>dialogs := dialogs a @ [m]\<rparr>"

definition log_line :: "log_line \<Rightarrow> app \<Rightarrow> app" where
  "log_line l a = a\<lparr>log_text := log_text a @ [l]\<rparr>"

definition after :: "nat \<Rightarrow> cell \<Rightarrow> app \<Rightarrow> app" where
  "after idx val_txt a = a\<lparr>after_queue := after_queue a @ [(idx, val_txt)]\<rparr>"

text \<open>The object after \<open>__init__\<close>, with \<open>p\<close> the port that \<open>_refresh_ports\<close> selected.\<close>

definition init_app :: "string \<Rightarrow> app" where
  "init_app p =
     \<lparr>client = None, connected = False, polling = False, poll_thread = None, threads = [],
      regs = DEFAULT_REGS, port_var = p, baud_var = ''19200'', parity_var = ''E'',
      slave_var = ''1'', poll_ms_var = ''1000'', swap_words_var = False,
      connect_btn = Normal, disconnect_btn = Disabled, status_var = NotConnected,
      dialogs = [], log_text = [], after_queue = []\<rparr>"

section \<open>Polling\<close>

text \<open>
  One pass of the body of the \<open>for\<close> loop of \<open>_poll_once\<close>, for the register \<open>reg\<close> at
  index \<open>idx\<close>. The \<open>try\<close> covers the read, the decoding and the first \<open>self.after\<close>; an
  exception of the read (\<open>Raised\<close>) or of \<open>decode_float32\<close> goes to the \<open>except\<close> branch.
\<close>

definition request_of :: "RegItem \<Rightarrow> int \<Rightarrow> request" where
  "request_of reg sl =
     \<lparr>fn = (if fc reg = 3 then ReadHolding else ReadInput),
      req_address = address reg, req_count = count reg, slave = sl\<rparr>"

definition poll_reg :: "'d transport \<Rightarrow> int \<Rightarrow> bool \<Rightarrow> nat \<times> RegItem \<Rightarrow> app \<times> 'd \<Rightarrow> app \<times> 'd" where
  "poll_reg tr sl swap_words ir s =
     (let idx = fst ir; reg = snd ir; a = fst s;
          (rr, d') = t_read tr (request_of reg sl) (snd s)
      in case rr of
           Raised \<Rightarrow> (log_line (RegException (name reg)) (after idx EXC a), d')
         | IsError \<Rightarrow> (after idx ERR (log_line (RegError (name reg)) a), d')
         | Registers rs \<Rightarrow>
             (case decode_float32 rs swap_words of
                Inl e \<Rightarrow> (log_line (RegException (name reg)) (after idx EXC a), d')
              | Inr None \<Rightarrow> (after idx NA a, d')
              | Inr (Some v) \<Rightarrow> (after idx (Formatted v (scale reg)) a, d')))"

definition poll_slave :: "pylib \<Rightarrow> app \<Rightarrow> int" where
  "poll_slave L a = (case py_int L (slave_var a) of None \<Rightarrow> 1 | Some n \<Rightarrow> n)"

definition poll_once :: "pylib \<Rightarrow> 'd transport \<Rightarrow> app \<times> 'd \<Rightarrow> app \<times> 'd" where
  "poll_once L tr s =
     (let sl = poll_slave L (fst s);
          swap_words = swap_words_var (fst s)
      in fold (poll_reg tr sl swap_words) (enumerate 0 (regs (fst s))) s)"

text \<open>
  One turn of \<open>_poll_loop\<close> by the background thread \<open>i\<close>, standing at the test of
  \<open>while self.polling\<close>: it returns when the flag is cleared; otherwise it computes the
  interval, runs a cycle if the session is connected, and calls
  \<open>time.sleep(poll_ms / 1000.0)\<close>. Only the computation of the interval stands in the
  \<open>try\<close>: when the division or the sleep raises, the exception ends the thread, and the
  \<open>polling\<close> flag stays as it is.
\<close>

definition poll_interval :: "pylib \<Rightarrow> app \<Rightarrow> int" where
  "poll_interval L a =
     (case py_int L (poll_ms_var a) of
        None \<Rightarrow> 1000
      | Some poll_ms \<Rightarrow> if poll_ms < 200 then 200 else poll_ms)"

definition set_phase :: "nat \<Rightarrow> phase \<Rightarrow> app \<Rightarrow> app" where
  "set_phase i ph a = a\<lparr>threads := (threads a)[i := ph]\<rparr>"

definition poll_loop_turn :: "pylib \<Rightarrow> 'd transport \<Rightarrow> nat \<Rightarrow> app \<times> 'd \<Rightarrow> app \<times> 'd" where
  "poll_loop_turn L tr i s =
     (if i < length (threads (fst s)) \<and> threads (fst s) ! i = LoopTest then
        if polling (fst s) then
          let poll_ms = poll_interval L (fst s);
              s' = (if connected (fst s) \<and> client (fst s) \<noteq> None then poll_once L tr s else s)
          in (set_phase i (if py_sleep L poll_ms then Sleeping poll_ms else Crashed) (fst s'),
              snd s')
        else (set_phase i Exited (fst s), snd s)
      else s)"

text \<open>
  What a background thread does while \<open>ms\<close> milliseconds pass with the \<open>polling\<close> flag
  cleared: a sleep that ends within the time is followed by the loop test, which fails, and
  the thread returns; a longer sleep goes on with the rest of its time.
\<close>

fun wind_down :: "int \<Rightarrow> phase \<Rightarrow> phase" where
  "wind_down ms LoopTest = Exited"
| "wind_down ms (Sleeping n) = (if n \<le> ms then Exited else Sleeping (n - ms))"
| "wind_down ms Exited = Exited"
| "wind_down ms Crashed = Crashed"

section \<open>Connecting and disconnecting\<close>

definition connect :: "pylib \<Rightarrow> 'd transport \<Rightarrow> app \<times> 'd \<Rightarrow> app \<times> 'd" where
  "connect L tr s =
     (let a = fst s; d = snd s in
      if connected a then s
      else
        let p = py_strip L (port_var a) in
        if p = [] then (showerror SelectPort a, d)
        else
          case py_int L (baud_var a) of
            None \<Rightarrow> (showerror InvalidSettings a, d)
          | Some baud \<Rightarrow>
              (case py_int L (slave_var a) of
                 None \<Rightarrow> (showerror InvalidSettings a, d)
               | Some sl \<Rightarrow>
                   if \<not> (1 \<le> sl \<and> sl \<le> 247) then (showerror InvalidSettings a, d)
                   else
                     let par = py_upper L (py_strip L (parity_var a)) in
                     if par \<notin> {''E'', ''O'', ''N''} then (showerror ParityMustBe a, d)
                     else
                       let c = \<lparr>port = p, baudrate = baud, parity = par, stopbits = 1,
                                bytesize = 8, timeout = 1\<rparr>;
                           (ok, d') = t_connect tr c d
                       in if \<not> ok then (showerror FailedToOpen (a\<lparr>client := None\<rparr>), d')
                          else
                            (log_line ConnectedOK
                               (a\<lparr>client := Some c, connected := True,
                                  connect_btn := Disabled, disconnect_btn := Normal,
                                  status_var := Connected p baud par sl\<rparr>)
                               \<lparr>polling := True,
                                poll_thread := Some (length (threads a)),
                                threads := threads a @ [LoopTest]\<rparr>, d')))"

text \<open>
  \<open>_disconnect\<close>: the flag is cleared, \<open>time.sleep(0.1)\<close> lets 100 ms pass for the
  background threads, the client is closed (an exception of \<open>close\<close> is swallowed) and
  dropped. The thread is not joined.
\<close>

definition disconnect :: "'d transport \<Rightarrow> app \<times> 'd \<Rightarrow> app \<times> 'd" where
  "disconnect tr s =
     (let a1 = (fst s)\<lparr>polling := False\<rparr>;
          a2 = a1\<lparr>threads := map (wind_down 100) (threads a1)\<rparr>;
          d' = (case client a2 of None \<Rightarrow> snd s | Some c \<Rightarrow> t_close tr (snd s))
      in (log_line Disconnected
            (a2\<lparr>client := None, connected := False, connect_btn := Normal,
                disconnect_btn := Disabled, status_var := NotConnected\<rparr>), d'))"

section \<open>Terms of the specification\<close>

text \<open>
  The specification speaks of a \<open>ReadingResult\<close> with a status. The program publishes a
  cell text instead: \<open>"ERR"\<close> after an error response, \<open>"EXC"\<close> after an exception,
  \<open>"N/A"\<close> when the decoder returns \<open>None\<close>, a formatted number otherwise.
  A read fails when it raises or answers with an error response.
\<close>

datatype status = Ok | TransportError | DecodeError

fun result_status :: "cell \<Rightarrow> status" where
  "result_status ERR = TransportError"
| "result_status EXC = TransportError"
| "result_status NA = DecodeError"
| "result_status (Formatted v sc) = Ok"

fun read_failed :: "response \<Rightarrow> bool" where
  "read_failed Raised = True"
| "read_failed IsError = True"
| "read_failed (Registers rs) = False"

text \<open>The answers the transport gives to the reads of one cycle, in the order of the
  register list, and the requests it was asked.\<close>

fun cycle_responses :: "'d transport \<Rightarrow> int \<Rightarrow> RegItem list \<Rightarrow> 'd \<Rightarrow> response list" where
  "cycle_responses tr sl [] d = []"
| "cycle_responses tr sl (r # rs) d =
     fst (t_read tr (request_of r sl) d) # cycle_responses tr sl rs (snd (t_read tr (request_of r sl) d))"

definition recording :: "'d transport \<Rightarrow> ('d \<times> request list) transport" where
  "recording tr =
     \<lparr>t_connect = (\<lambda>c (d, qs). (fst (t_connect tr c d), (snd (t_connect tr c d), qs))),
      t_read = (\<lambda>q (d, qs). (fst (t_read tr q d), (snd (t_read tr q d), qs @ [q]))),
      t_close = (\<lambda>(d, qs). (t_close tr d, qs))\<rparr>"

text \<open>The cells published by a call: what it appended to \<open>after_queue\<close>.\<close>

definition published :: "app \<Rightarrow> app \<Rightarrow> (nat \<times> cell) list" where
  "published a a' = drop (length (after_queue a)) (after_queue a')"

text \<open>The two big-endian 16-bit words of a 32-bit pattern, high word first, and the float
  with a given 32-bit pattern.\<close>

definition split_words :: "int \<Rightarrow> int list" where
  "split_words w = [drop_bit 16 w, w AND 0xFFFF]"

definition float32_of_pattern :: "int \<Rightarrow> float32" where
  "float32_of_pattern w =
     \<lparr>sign = drop_bit 31 w, exponent = take_bit 8 (drop_bit 23 w), fraction = take_bit 23 w\<rparr>"

text \<open>A pattern is a signalling NaN when its exponent bits are all ones and its fraction is
  not zero and has its top bit, bit 22 of the pattern, clear.\<close>

definition signalling_nan :: "int \<Rightarrow> bool" where
  "signalling_nan w = (take_bit 8 (drop_bit 23 w) = 255 \<and> take_bit 23 w \<noteq> 0 \<and> \<not> bit w 22)"

text \<open>What one pass of the loop publishes and logs for a given answer of the transport, and
  the state of the outside world after the reads of a cycle.\<close>

fun cell_for :: "bool \<Rightarrow> RegItem \<Rightarrow> response \<Rightarrow> cell" where
  "cell_for sw reg Raised = EXC"
| "cell_for sw reg IsError = ERR"
| "cell_for sw reg (Registers rs) =
     (case decode_float32 rs sw of
        Inl e \<Rightarrow> EXC
      | Inr None \<Rightarrow> NA
      | Inr (Some v) \<Rightarrow> Formatted v (scale reg))"

fun log_for :: "bool \<Rightarrow> RegItem \<Rightarrow> response \<Rightarrow> log_line list" where
  "log_for sw reg Raised = [RegException (name reg)]"
| "log_for sw reg IsError = [RegError (name reg)]"
| "log_for sw reg (Registers rs) =
     (case decode_float32 rs sw of Inl e \<Rightarrow> [RegException (name reg)] | Inr v \<Rightarrow> [])"

fun cycle_end :: "'d transport \<Rightarrow> int \<Rightarrow> RegItem list \<Rightarrow> 'd \<Rightarrow> 'd" where
  "cycle_end tr sl [] d = d"
| "cycle_end tr sl (r # rs) d = cycle_end tr sl rs (snd (t_read tr (request_of r sl) d))"

text \<open>A simulated transport, to run the model: the port always opens, and the k-th read
  of the session is answered by the k-th entry of a script (a read beyond it raises).\<close>

definition sim_transport :: "response list \<Rightarrow> nat transport" where
  "sim_transport script =
     \<lparr>t_connect = (\<lambda>c d. (True, d)),
      t_read = (\<lambda>q d. (if d < length script then script ! d else Raised, Suc d)),
      t_close = (\<lambda>d. d)\<rparr>"

section \<open>Bit patterns\<close>

lemma and_FFFF: "(x::int) AND 0xFFFF = take_bit 16 x"
  by (simp add: take_bit_eq_mask mask_eq_exp_minus_1)

lemma and_FF: "(x::int) AND 0xFF = take_bit 8 x"
  by (simp add: take_bit_eq_mask mask_eq_exp_minus_1)

lemma and_7F: "(x::int) AND 0x7F = take_bit 7 x"
  by (simp add: take_bit_eq_mask mask_eq_exp_minus_1)

lemma bit_index_cases:
  "n < 8 \<or> (8 \<le> n \<and> n < 16) \<or> (16 \<le> n \<and> n < 23) \<or> n = 23 \<or> (24 \<le> n \<and> n < 31) \<or>
   n = 31 \<or> 32 \<le> (n::nat)"
  by arith

lemma word_pair_take_bit:
  "take_bit 32 (push_bit 16 (take_bit 16 (a::int)) OR take_bit 16 b) =
   push_bit 16 (take_bit 16 a) OR take_bit 16 b"
  by (rule bit_eqI) (auto simp add: bit_simps)

lemma word_pair_range:
  "0 \<le> push_bit 16 (take_bit 16 (a::int)) OR take_bit 16 b \<and>
   push_bit 16 (take_bit 16 a) OR take_bit 16 b < 2 ^ 32"
proof -
  have "take_bit 32 (push_bit 16 (take_bit 16 a) OR take_bit 16 b) < 2 ^ 32"
    by (rule take_bit_int_less_exp)
  then have "push_bit 16 (take_bit 16 a) OR take_bit 16 b < 2 ^ 32"
    by (simp only: word_pair_take_bit)
  moreover have "0 \<le> push_bit 16 (take_bit 16 a) OR take_bit 16 b"
    by simp
  ultimately show ?thesis
    by simp
qed

text \<open>The three fields that \<open>struct_unpack_f\<close> cuts out of the four bytes of
  \<open>struct_pack_I raw\<close> are the sign, exponent and fraction bits of \<open>raw\<close>.\<close>

lemma sign_of_bytes:
  assumes "0 \<le> raw" "raw < 2 ^ 32"
  shows "drop_bit 7 (take_bit 8 (drop_bit 24 raw)) = drop_bit 31 (raw::int)"
proof -
  have r: "take_bit 32 raw = raw"
    using assms by (simp add: take_bit_int_eq_self)
  have "drop_bit 7 (take_bit 8 (drop_bit 24 (take_bit 32 raw))) = drop_bit 31 (take_bit 32 raw)"
    by (rule bit_eqI) (auto simp add: bit_simps)
  then show ?thesis
    by (simp only: r)
qed

lemma exponent_of_bytes:
  "push_bit 1 (take_bit 7 (take_bit 8 (drop_bit 24 raw))) OR drop_bit 7 (take_bit 8 (drop_bit 16 raw))
   = take_bit 8 (drop_bit 23 (raw::int))"
proof (rule bit_eqI)
  fix n :: nat
  have "n = 0 \<or> (1 \<le> n \<and> n < 8) \<or> 8 \<le> n"
    by arith
  then show "bit (push_bit 1 (take_bit 7 (take_bit 8 (drop_bit 24 raw))) OR
                  drop_bit 7 (take_bit 8 (drop_bit 16 raw))) n
             = bit (take_bit 8 (drop_bit 23 raw)) n"
    by (elim disjE)
       (auto simp add: bit_or_iff bit_push_bit_iff bit_take_bit_iff bit_drop_bit_eq
             simp del: push_bit_Suc)
qed

lemma fraction_of_bytes:
  "push_bit 16 (take_bit 7 (take_bit 8 (drop_bit 16 raw))) OR push_bit 8 (take_bit 8 (drop_bit 8 raw))
     OR take_bit 8 raw = take_bit 23 (raw::int)"
proof (rule bit_eqI)
  fix n :: nat
  show "bit (push_bit 16 (take_bit 7 (take_bit 8 (drop_bit 16 raw))) OR
             push_bit 8 (take_bit 8 (drop_bit 8 raw)) OR take_bit 8 raw) n
        = bit (take_bit 23 raw) n"
    using bit_index_cases [of n]
    by (elim disjE)
       (auto simp add: bit_or_iff bit_push_bit_iff bit_take_bit_iff bit_drop_bit_eq)
qed

lemma bits_of_pattern: "float32_bits (float32_of_pattern w) = w"
proof (rule bit_eqI)
  fix n :: nat
  show "bit (float32_bits (float32_of_pattern w)) n = bit w n"
    unfolding float32_bits_def float32_of_pattern_def float32.select_convs
    using bit_index_cases [of n]
    by (elim disjE)
       (auto simp add: bit_or_iff bit_push_bit_iff bit_take_bit_iff bit_drop_bit_eq)
qed

text \<open>The pattern of the float after the widening: the top fraction bit of a signalling NaN
  is set and nothing else changes.\<close>

lemma bit_quiet_bit: "bit (0x400000 :: int) n = (n = 22)"
proof -
  have "(0x400000 :: int) = 2 ^ 22"
    by simp
  then show ?thesis
    by (simp only: bit_exp_iff) simp
qed

lemma quiet_bit_set:
  assumes "bit w 22"
  shows "(w::int) OR 0x400000 = w"
proof (rule bit_eqI)
  fix n :: nat
  show "bit (w OR 0x400000) n = bit w n"
    using assms by (auto simp only: bit_or_iff bit_quiet_bit)
qed

lemma pattern_quieted:
  "float32_of_pattern (w OR 0x400000)
     = (float32_of_pattern w)\<lparr>fraction := fraction (float32_of_pattern w) OR 0x400000\<rparr>"
  by (simp add: float32_of_pattern_def)

lemma quiet_nan_pattern:
  "quiet_nan (float32_of_pattern w)
     = float32_of_pattern (if signalling_nan w then w OR 0x400000 else w)"
proof (cases "take_bit 8 (drop_bit 23 w) = 255 \<and> take_bit 23 w \<noteq> 0")
  case False
  then have "quiet_nan (float32_of_pattern w) = float32_of_pattern w" "\<not> signalling_nan w"
    by (auto simp add: quiet_nan_def float32_of_pattern_def signalling_nan_def)
  then show ?thesis
    by simp
next
  case nan: True
  then have "quiet_nan (float32_of_pattern w)
      = (float32_of_pattern w)\<lparr>fraction := fraction (float32_of_pattern w) OR 0x400000\<rparr>"
    by (simp add: quiet_nan_def float32_of_pattern_def)
  then have q: "quiet_nan (float32_of_pattern w) = float32_of_pattern (w OR 0x400000)"
    by (simp only: pattern_quieted)
  show ?thesis
  proof (cases "bit w 22")
    case True
    then have "\<not> signalling_nan w"
      by (simp add: signalling_nan_def)
    with q True show ?thesis
      by (simp only: quiet_bit_set if_False)
  next
    case False
    with nan have "signalling_nan w"
      by (simp add: signalling_nan_def)
    with q show ?thesis
      by (simp only: if_True)
  qed
qed

lemma bits_quiet_nan:
  "float32_bits (quiet_nan (float32_of_pattern w))
     = (if signalling_nan w then w OR 0x400000 else w)"
  by (simp only: quiet_nan_pattern bits_of_pattern)

lemma bits_quiet_range:
  assumes "0 \<le> w" "w < 2 ^ 32"
  shows "0 \<le> float32_bits (quiet_nan (float32_of_pattern w)) \<and>
         float32_bits (quiet_nan (float32_of_pattern w)) < 2 ^ 32"
proof -
  have r: "take_bit 32 w = w"
    using assms by (simp add: take_bit_int_eq_self)
  have "take_bit 32 (take_bit 32 w OR 0x400000) = take_bit 32 w OR 0x400000"
  proof (rule bit_eqI)
    fix n :: nat
    show "bit (take_bit 32 (take_bit 32 w OR 0x400000)) n = bit (take_bit 32 w OR 0x400000) n"
      by (auto simp only: bit_take_bit_iff bit_or_iff bit_quiet_bit)
  qed
  then have "take_bit 32 (w OR 0x400000) = w OR 0x400000"
    by (simp only: r)
  moreover have "take_bit 32 (w OR 0x400000) < 2 ^ 32"
    by (rule take_bit_int_less_exp)
  ultimately have hi: "w OR 0x400000 < 2 ^ 32"
    by (simp only:)
  have lo: "0 \<le> w OR 0x400000"
    using assms by simp
  from hi lo assms show ?thesis
    by (simp only: bits_quiet_nan split: if_split) simp
qed

lemma unpack_pack:
  assumes "0 \<le> raw" "raw < 2 ^ 32"
  shows "(case struct_pack_I raw of Inl e \<Rightarrow> Inl e
          | Inr bs \<Rightarrow> (case struct_unpack_f bs of Inl e \<Rightarrow> Inl e | Inr f \<Rightarrow> Inr (Some f)))
         = Inr (Some (quiet_nan (float32_of_pattern raw)))"
  using assms
  by (simp add: struct_pack_I_def and_FF and_7F float32_of_pattern_def
        sign_of_bytes exponent_of_bytes [unfolded One_nat_def] fraction_of_bytes
        del: take_bit_take_bit push_bit_Suc)

text \<open>With two words or more the decoder never raises: the masked words always give a
  pattern that \<open>struct.pack\<close> accepts, and only the first two words are read.\<close>

lemma decode_two_or_more:
  assumes "2 \<le> length rs"
  shows "decode_float32 (Some rs) sw =
         Inr (Some (quiet_nan (float32_of_pattern
           (if sw then push_bit 16 (take_bit 16 (rs ! 1)) OR take_bit 16 (rs ! 0)
            else push_bit 16 (take_bit 16 (rs ! 0)) OR take_bit 16 (rs ! 1)))))"
  using assms word_pair_range [of "rs ! 0" "rs ! 1"] word_pair_range [of "rs ! 1" "rs ! 0"]
  by (simp add: decode_float32_def Let_def and_FFFF unpack_pack)

lemma split_words_join:
  assumes "0 \<le> w" "w < 2 ^ 32"
  shows "push_bit 16 (take_bit 16 (drop_bit 16 w)) OR take_bit 16 (take_bit 16 w) = (w::int)"
proof -
  have "push_bit 16 (take_bit 16 (drop_bit 16 w)) OR take_bit 16 (take_bit 16 w) = take_bit 32 w"
    by (rule bit_eqI) (auto simp add: bit_simps)
  then show ?thesis
    using assms by (simp add: take_bit_int_eq_self)
qed

section \<open>The register address\<close>

text \<open>
  Claim C4. For every register definition with \<open>offset \<ge> 1\<close> the wire address is
  \<open>offset - 1\<close> (and so not negative). The address is not a stored field: it follows every
  change of the offset, and two definitions with the same offset have the same address.
\<close>

theorem address_from_offset:
  "1 \<le> offset r \<Longrightarrow>
     address r = offset r - 1 \<and> 0 \<le> address r \<and>
     (\<forall>k. address (r\<lparr>offset := k\<rparr>) = k - 1) \<and>
     (\<forall>r'. offset r' = offset r \<longrightarrow> address r' = address r)"
  by (simp add: address_def)

theorem address_from_offset_witness:
  "1 \<le> offset (mk_reg 3053 ''Active power A'' ''kW'' 4) \<and>
   address (mk_reg 3053 ''Active power A'' ''kW'' 4) = 3052 \<and>
   address ((mk_reg 3053 ''Active power A'' ''kW'' 4)\<lparr>offset := 3059\<rparr>) = 3058"
  using address_from_offset [of "mk_reg 3053 ''Active power A'' ''kW'' 4"]
  by (simp add: mk_reg_def)

section \<open>The decoder\<close>

text \<open>
  Claim C2, as stated: for every 32-bit pattern, NaN payloads included, decoding its two
  words gives back the pattern bit for bit. The float that \<open>struct.unpack\<close> returns for a
  signalling NaN is quiet: the words of \<open>0x7F800001\<close> decode to the float with the pattern
  \<open>0x7FC00001\<close>.
\<close>

theorem decode_float32_signalling_nan_counterexample:
  "(0::int) \<le> 0x7F800001 \<and> (0x7F800001::int) < 2 ^ 32 \<and>
   split_words 0x7F800001 = [0x7F80, 0x0001] \<and>
   decode_float32 (Some [0x7F80, 0x0001]) False
     = Inr (Some \<lparr>sign = 0, exponent = 255, fraction = 0x400001\<rparr>) \<and>
   float32_bits \<lparr>sign = 0, exponent = 255, fraction = 0x400001\<rparr> = 0x7FC00001 \<and>
   (0x7FC00001::int) \<noteq> 0x7F800001"
  by (simp add: split_words_def decode_two_or_more float32_of_pattern_def quiet_nan_def
        float32_bits_def)

text \<open>
  Claim C2, amended. For every 32-bit pattern \<open>w\<close>, decoding its high and low 16-bit words
  without word swap, and decoding the two words in exchanged order with word swap, give the
  same float. Its pattern is \<open>w\<close> itself, bit for bit, unless \<open>w\<close> is a signalling NaN:
  numbers, infinities and quiet NaNs with their payloads come back unchanged. For a
  signalling NaN the pattern is \<open>w\<close> with bit 22 set: sign and payload are kept and the NaN
  is quiet.
\<close>

theorem decode_float32_roundtrip_quiet:
  assumes "0 \<le> w" "w < 2 ^ 32"
  shows "decode_float32 (Some (split_words w)) False
           = Inr (Some (float32_of_pattern (if signalling_nan w then w OR 0x400000 else w))) \<and>
         decode_float32 (Some (rev (split_words w))) True
           = Inr (Some (float32_of_pattern (if signalling_nan w then w OR 0x400000 else w))) \<and>
         float32_bits (float32_of_pattern (if signalling_nan w then w OR 0x400000 else w))
           = (if signalling_nan w then w OR 0x400000 else w)"
  using split_words_join [OF assms]
  by (simp add: decode_two_or_more split_words_def and_FFFF bits_of_pattern quiet_nan_pattern)

theorem decode_float32_roundtrip_quiet_witness:
  "(0::int) \<le> 0x7FC00001 \<and> (0x7FC00001::int) < 2 ^ 32 \<and> \<not> signalling_nan 0x7FC00001 \<and>
   decode_float32 (Some (split_words 0x7FC00001)) False
     = Inr (Some (float32_of_pattern 0x7FC00001)) \<and>
   decode_float32 (Some (rev (split_words 0x7FC00001))) True
     = Inr (Some (float32_of_pattern 0x7FC00001)) \<and>
   float32_bits (float32_of_pattern 0x7FC00001) = 0x7FC00001 \<and>
   signalling_nan 0xFF800001 \<and>
   decode_float32 (Some (split_words 0xFF800001)) False
     = Inr (Some (float32_of_pattern 0xFFC00001))"
proof -
  have q: "\<not> signalling_nan 0x7FC00001"
    by (simp add: signalling_nan_def)
  have n: "signalling_nan 0xFF800001"
    by (simp add: signalling_nan_def)
  have o: "(0xFF800001 :: int) OR 0x400000 = 0xFFC00001"
    by simp
  from decode_float32_roundtrip_quiet [of "0x7FC00001"]
       decode_float32_roundtrip_quiet [of "0xFF800001"] q n o
  show ?thesis
    by simp
qed

text \<open>
  Claim C3, as stated: a word sequence of any length other than 2, shorter or longer, is
  refused. The decoder refuses only the shorter ones (\<open>len(regs) < 2\<close>): three words
  decode.
\<close>

theorem decode_float32_extra_words_counterexample:
  "length [0x4248, 0xF5C3, 0 :: int] \<noteq> 2 \<and>
   decode_float32 (Some [0x4248, 0xF5C3, 0]) False
     = Inr (Some \<lparr>sign = 0, exponent = 132, fraction = 4781507\<rparr>)"
  by (simp add: decode_two_or_more float32_of_pattern_def quiet_nan_def)

text \<open>
  Claim C3, amended. The decoder never raises. It returns \<open>None\<close> when the registers are
  missing or fewer than two; with two words or more it returns a float, the one the first
  two words alone decode to.
\<close>

theorem decode_float32_word_count:
  "decode_float32 None sw = Inr None \<and>
   (length rs < 2 \<longrightarrow> decode_float32 (Some rs) sw = Inr None) \<and>
   (2 \<le> length rs \<longrightarrow>
      (\<exists>f. decode_float32 (Some rs) sw = Inr (Some f) \<and>
           decode_float32 (Some (take 2 rs)) sw = Inr (Some f)))"
  by (simp add: decode_two_or_more) (simp add: decode_float32_def)

theorem decode_float32_word_count_witness:
  "length [0x4248 :: int] < 2 \<and> decode_float32 (Some [0x4248]) False = Inr None \<and>
   2 \<le> length [0x4248, 0xF5C3, 7 :: int] \<and>
   decode_float32 (Some [0x4248, 0xF5C3, 7]) False = decode_float32 (Some [0x4248, 0xF5C3]) False"
  using decode_float32_word_count [of False "[0x4248]"]
        decode_float32_word_count [of False "[0x4248, 0xF5C3, 7]"]
  by auto

text \<open>
  Claim C9. For every pair of integers the decoder reads only the low 16 bits of each:
  masking the inputs first changes nothing, two pairs that agree modulo \<open>2^16\<close> decode
  alike, and the result is always a float whose pattern lies in \<open>0 .. 2^32 - 1\<close>.
\<close>

theorem decode_float32_low_bits:
  "decode_float32 (Some [a, b]) sw = decode_float32 (Some [a AND 0xFFFF, b AND 0xFFFF]) sw \<and>
   (a mod 65536 = a' mod 65536 \<and> b mod 65536 = b' mod 65536 \<longrightarrow>
      decode_float32 (Some [a, b]) sw = decode_float32 (Some [a', b']) sw) \<and>
   (\<exists>f. decode_float32 (Some [a, b]) sw = Inr (Some f) \<and>
        0 \<le> float32_bits f \<and> float32_bits f < 2 ^ 32)"
proof -
  have same: "decode_float32 (Some [a, b]) sw = decode_float32 (Some [a AND 0xFFFF, b AND 0xFFFF]) sw"
    by (simp add: decode_two_or_more and_FFFF)
  have alike: "a mod 65536 = a' mod 65536 \<and> b mod 65536 = b' mod 65536 \<longrightarrow>
      decode_float32 (Some [a, b]) sw = decode_float32 (Some [a', b']) sw"
    by (simp add: decode_two_or_more take_bit_eq_mod)
  have range: "\<exists>f. decode_float32 (Some [a, b]) sw = Inr (Some f) \<and>
        0 \<le> float32_bits f \<and> float32_bits f < 2 ^ 32"
  proof (cases sw)
    case True
    from word_pair_range [of b a] have
      "0 \<le> float32_bits (quiet_nan (float32_of_pattern
               (push_bit 16 (take_bit 16 b) OR take_bit 16 a))) \<and>
       float32_bits (quiet_nan (float32_of_pattern
               (push_bit 16 (take_bit 16 b) OR take_bit 16 a))) < 2 ^ 32"
      by (intro bits_quiet_range) simp_all
    with True show ?thesis
      by (simp add: decode_two_or_more)
  next
    case False
    from word_pair_range [of a b] have
      "0 \<le> float32_bits (quiet_nan (float32_of_pattern
               (push_bit 16 (take_bit 16 a) OR take_bit 16 b))) \<and>
       float32_bits (quiet_nan (float32_of_pattern
               (push_bit 16 (take_bit 16 a) OR take_bit 16 b))) < 2 ^ 32"
      by (intro bits_quiet_range) simp_all
    with False show ?thesis
      by (simp add: decode_two_or_more)
  qed
  from same alike range show ?thesis
    by blast
qed

theorem decode_float32_low_bits_witness:
  "(0x14248 :: int) mod 65536 = 0x4248 mod 65536 \<and> (- 1 :: int) mod 65536 = 0xFFFF mod 65536 \<and>
   decode_float32 (Some [0x14248, - 1]) False = decode_float32 (Some [0x4248, 0xFFFF]) False \<and>
   decode_float32 (Some [0x14248, - 1]) False
     = Inr (Some \<lparr>sign = 0, exponent = 132, fraction = 0x48FFFF\<rparr>)"
  using decode_float32_low_bits [of "0x14248" "- 1" False "0x4248" "0xFFFF"]
  by (simp add: decode_two_or_more float32_of_pattern_def quiet_nan_def)

section \<open>One poll cycle\<close>

lemma poll_reg_eq:
  "poll_reg tr sl sw (i, r) (a, d) =
     (a\<lparr>after_queue := after_queue a @ [(i, cell_for sw r (fst (t_read tr (request_of r sl) d)))],
        log_text := log_text a @ log_for sw r (fst (t_read tr (request_of r sl) d))\<rparr>,
      snd (t_read tr (request_of r sl) d))"
  by (cases "t_read tr (request_of r sl) d")
     (auto simp add: poll_reg_def after_def log_line_def split: response.splits sum.splits option.splits)

lemma fold_poll_reg:
  "fold (poll_reg tr sl sw) (enumerate n rs) (a, d) =
     (a\<lparr>after_queue := after_queue a @
            map (\<lambda>(i, r, rr). (i, cell_for sw r rr))
                (enumerate n (zip rs (cycle_responses tr sl rs d))),
        log_text := log_text a @
            concat (map (\<lambda>(r, rr). log_for sw r rr) (zip rs (cycle_responses tr sl rs d)))\<rparr>,
      cycle_end tr sl rs d)"
proof (induction rs arbitrary: n a d)
  case Nil
  then show ?case by simp
next
  case (Cons r rs)
  show ?case
    by (simp add: poll_reg_eq Cons.IH)
qed

lemma poll_once_eq:
  "poll_once L tr (a, d) =
     (a\<lparr>after_queue := after_queue a @
            map (\<lambda>(i, r, rr). (i, cell_for (swap_words_var a) r rr))
                (enumerate 0 (zip (regs a) (cycle_responses tr (poll_slave L a) (regs a) d))),
        log_text := log_text a @
            concat (map (\<lambda>(r, rr). log_for (swap_words_var a) r rr)
                        (zip (regs a) (cycle_responses tr (poll_slave L a) (regs a) d)))\<rparr>,
      cycle_end tr (poll_slave L a) (regs a) d)"
  by (simp add: poll_once_def fold_poll_reg Let_def)

lemma length_cycle_responses [simp]: "length (cycle_responses tr sl rs d) = length rs"
  by (induction rs arbitrary: d) simp_all

lemma published_poll_once:
  "published a (fst (poll_once L tr (a, d))) =
     map (\<lambda>(i, r, rr). (i, cell_for (swap_words_var a) r rr))
         (enumerate 0 (zip (regs a) (cycle_responses tr (poll_slave L a) (regs a) d)))"
  by (simp add: poll_once_eq published_def)

lemma status_cell_for:
  "(result_status (cell_for sw r rr) = TransportError) = read_failed rr"
proof (cases rr)
  case (Registers rs)
  show ?thesis
  proof (cases rs)
    case None
    with Registers show ?thesis by (simp add: decode_float32_def)
  next
    case (Some ws)
    show ?thesis
    proof (cases "length ws < 2")
      case True
      with Registers Some show ?thesis by (simp add: decode_float32_def)
    next
      case False
      then have "2 \<le> length ws" by simp
      with Registers Some show ?thesis by (simp add: decode_two_or_more)
    qed
  qed
qed simp_all

lemma map_snd_cells:
  "map snd (map (\<lambda>(i, r, rr). (i, f r rr)) (enumerate n xs)) = map (\<lambda>(r, rr). f r rr) xs"
  by (induction xs arbitrary: n) auto

lemma map_fst_cells:
  "map fst (map (\<lambda>(i, r, rr). (i, f r rr)) (enumerate n xs)) = [n ..< n + length xs]"
proof -
  have "map fst (map (\<lambda>(i, r, rr). (i, f r rr)) (enumerate n xs)) = map fst (enumerate n xs)"
    by (induction xs arbitrary: n) auto
  then show ?thesis by simp
qed

lemma count_failed_cells:
  assumes "length rs = length resps"
  shows "length (filter (\<lambda>c. result_status c = TransportError)
                   (map (\<lambda>(r, rr). cell_for sw r rr) (zip rs resps)))
         = length (filter read_failed resps)"
  using assms
proof (induction rs resps rule: list_induct2)
  case Nil
  then show ?case by simp
next
  case (Cons r rs rr resps)
  then show ?case by (simp add: status_cell_for)
qed

lemma recording_responses:
  "cycle_responses (recording tr) sl rs (d, qs) = cycle_responses tr sl rs d"
  by (induction rs arbitrary: d qs) (simp_all add: recording_def)

lemma recording_end:
  "cycle_end (recording tr) sl rs (d, qs)
     = (cycle_end tr sl rs d, qs @ map (\<lambda>r. request_of r sl) rs)"
  by (induction rs arbitrary: d qs) (simp_all add: recording_def)

text \<open>
  Claim C1. For every register list, every transport and every state of the outside world:
  if exactly one read of the cycle fails (raises, or answers with an error response), the
  cycle still publishes one cell per register, with the indices \<open>0 .. N - 1\<close> in the order
  of the list; exactly one of the cells has the status \<open>TransportError\<close> and the other
  \<open>N - 1\<close> have not. The reads themselves are issued one per register, in the order of
  the list.
\<close>

theorem poll_once_one_failure:
  assumes "length (filter read_failed (cycle_responses tr (poll_slave L a) (regs a) d)) = 1"
  shows "after_queue (fst (poll_once L tr (a, d)))
           = after_queue a @ published a (fst (poll_once L tr (a, d))) \<and>
         map fst (published a (fst (poll_once L tr (a, d)))) = [0 ..< length (regs a)] \<and>
         length (filter (\<lambda>c. result_status c = TransportError)
                   (map snd (published a (fst (poll_once L tr (a, d)))))) = 1 \<and>
         length (filter (\<lambda>c. result_status c \<noteq> TransportError)
                   (map snd (published a (fst (poll_once L tr (a, d)))))) = length (regs a) - 1 \<and>
         snd (snd (poll_once L (recording tr) (a, (d, []))))
           = map (\<lambda>r. request_of r (poll_slave L a)) (regs a)"
proof -
  let ?resps = "cycle_responses tr (poll_slave L a) (regs a) d"
  let ?cells = "map snd (published a (fst (poll_once L tr (a, d))))"
  have cells: "?cells = map (\<lambda>(r, rr). cell_for (swap_words_var a) r rr) (zip (regs a) ?resps)"
    by (simp only: published_poll_once map_snd_cells)
  have n: "length ?cells = length (regs a)"
    by (simp add: cells)
  have "length (filter (\<lambda>c. result_status c = TransportError)
                  (map (\<lambda>(r, rr). cell_for (swap_words_var a) r rr) (zip (regs a) ?resps)))
          = length (filter read_failed ?resps)"
    by (rule count_failed_cells) simp
  with assms have one: "length (filter (\<lambda>c. result_status c = TransportError) ?cells) = 1"
    by (simp only: cells)
  have "length (filter (\<lambda>c. result_status c = TransportError) ?cells)
          + length (filter (\<lambda>c. \<not> result_status c = TransportError) ?cells) = length ?cells"
    by (rule sum_length_filter_compl)
  with one n have rest:
    "length (filter (\<lambda>c. result_status c \<noteq> TransportError) ?cells) = length (regs a) - 1"
    by simp
  have q: "after_queue (fst (poll_once L tr (a, d)))
             = after_queue a @ published a (fst (poll_once L tr (a, d)))"
    by (simp add: published_def poll_once_eq)
  have idx: "map fst (published a (fst (poll_once L tr (a, d)))) = [0 ..< length (regs a)]"
    by (simp only: published_poll_once map_fst_cells) simp
  have ord: "snd (snd (poll_once L (recording tr) (a, (d, []))))
               = map (\<lambda>r. request_of r (poll_slave L a)) (regs a)"
    by (simp add: poll_once_eq recording_end)
  from q idx one rest ord show ?thesis
    by blast
qed

theorem poll_once_one_failure_witness:
  "length (filter read_failed
      (cycle_responses
         (sim_transport [Registers (Some [0x4248, 0xF5C3]), IsError, Registers (Some [0, 0])])
         (poll_slave ascii_lib ((init_app ''COM1'')\<lparr>regs := take 3 DEFAULT_REGS\<rparr>))
         (regs ((init_app ''COM1'')\<lparr>regs := take 3 DEFAULT_REGS\<rparr>)) 0)) = 1 \<and>
   map fst (published ((init_app ''COM1'')\<lparr>regs := take 3 DEFAULT_REGS\<rparr>)
     (fst (poll_once ascii_lib
        (sim_transport [Registers (Some [0x4248, 0xF5C3]), IsError, Registers (Some [0, 0])])
        ((init_app ''COM1'')\<lparr>regs := take 3 DEFAULT_REGS\<rparr>, 0)))) = [0, 1, 2] \<and>
   map (result_status \<circ> snd) (published ((init_app ''COM1'')\<lparr>regs := take 3 DEFAULT_REGS\<rparr>)
     (fst (poll_once ascii_lib
        (sim_transport [Registers (Some [0x4248, 0xF5C3]), IsError, Registers (Some [0, 0])])
        ((init_app ''COM1'')\<lparr>regs := take 3 DEFAULT_REGS\<rparr>, 0)))) = [Ok, TransportError, Ok]"
proof -
  let ?a = "(init_app ''COM1'')\<lparr>regs := take 3 DEFAULT_REGS\<rparr>"
  let ?tr = "sim_transport [Registers (Some [0x4248, 0xF5C3]), IsError, Registers (Some [0, 0])]"
  have rs: "regs ?a = [mk_reg 2699 ''Active energy delivered (into load)'' ''kWh'' 3,
    mk_reg 2701 ''Active energy received (out of load)'' ''kWh'' 3,
    mk_reg 2703 ''Active energy delivered + received'' ''kWh'' 3]"
    by (simp add: init_app_def DEFAULT_REGS_def)
  have resps: "cycle_responses ?tr sl
       [mk_reg 2699 ''Active energy delivered (into load)'' ''kWh'' 3,
        mk_reg 2701 ''Active energy received (out of load)'' ''kWh'' 3,
        mk_reg 2703 ''Active energy delivered + received'' ''kWh'' 3] 0
      = [Registers (Some [0x4248, 0xF5C3]), IsError, Registers (Some [0, 0])]" for sl
    by (simp add: sim_transport_def)
  have h: "length (filter read_failed (cycle_responses ?tr (poll_slave ascii_lib ?a) (regs ?a) 0)) = 1"
    by (simp only: rs resps) simp
  have st: "map (result_status \<circ> snd) (published ?a (fst (poll_once ascii_lib ?tr (?a, 0))))
      = [Ok, TransportError, Ok]"
    by (simp only: published_poll_once rs resps)
       (simp add: decode_two_or_more float32_of_pattern_def quiet_nan_def)
  from poll_once_one_failure [of ?tr ascii_lib ?a 0, OF h] h st show ?thesis
    by (simp add: rs)
qed

text \<open>
  Claim C10. If \<open>int\<close> raises on the slave-id field when a cycle begins, the cycle runs all
  the same: every read of the cycle is issued with slave id 1 (read off a transport that
  records its requests and otherwise behaves as the given one), and a cell is published for
  every register.
\<close>

theorem poll_once_slave_fallback:
  assumes "py_int L (slave_var a) = None"
  shows "snd (snd (poll_once L (recording tr) (a, (d, [])))) = map (\<lambda>r. request_of r 1) (regs a) \<and>
         fst (poll_once L (recording tr) (a, (d, []))) = fst (poll_once L tr (a, d)) \<and>
         map fst (published a (fst (poll_once L tr (a, d)))) = [0 ..< length (regs a)] \<and>
         dialogs (fst (poll_once L tr (a, d))) = dialogs a"
proof -
  from assms have sl: "poll_slave L a = 1"
    by (simp add: poll_slave_def)
  have idx: "map fst (published a (fst (poll_once L tr (a, d)))) = [0 ..< length (regs a)]"
    by (simp only: published_poll_once map_fst_cells) simp
  show ?thesis
    using idx by (simp add: poll_once_eq recording_responses recording_end sl)
qed

theorem poll_once_slave_fallback_witness:
  "py_int ascii_lib (slave_var ((init_app ''COM1'')\<lparr>slave_var := ''one'', regs := take 2 DEFAULT_REGS\<rparr>)) = None \<and>
   map slave (snd (snd (poll_once ascii_lib (recording (sim_transport []))
      ((init_app ''COM1'')\<lparr>slave_var := ''one'', regs := take 2 DEFAULT_REGS\<rparr>, (0, []))))) = [1, 1] \<and>
   published ((init_app ''COM1'')\<lparr>slave_var := ''one'', regs := take 2 DEFAULT_REGS\<rparr>)
      (fst (poll_once ascii_lib (sim_transport [])
        ((init_app ''COM1'')\<lparr>slave_var := ''one'', regs := take 2 DEFAULT_REGS\<rparr>, 0)))
     = [(0, EXC), (1, EXC)]"
proof -
  let ?a = "(init_app ''COM1'')\<lparr>slave_var := ''one'', regs := take 2 DEFAULT_REGS\<rparr>"
  have h: "py_int ascii_lib (slave_var ?a) = None"
    by (simp add: init_app_def ascii_lib_def ascii_int_def is_c_space_def is_digit_def)
  have rs: "regs ?a = [mk_reg 2699 ''Active energy delivered (into load)'' ''kWh'' 3,
    mk_reg 2701 ''Active energy received (out of load)'' ''kWh'' 3]"
    by (simp add: init_app_def DEFAULT_REGS_def)
  have p: "published ?a (fst (poll_once ascii_lib (sim_transport []) (?a, 0))) = [(0, EXC), (1, EXC)]"
    by (simp only: published_poll_once rs) (simp add: sim_transport_def)
  from poll_once_slave_fallback [of ascii_lib ?a "sim_transport []" 0, OF h] h p show ?thesis
    by (simp add: rs request_of_def)
qed

lemma threads_poll_once: "threads (fst (poll_once L tr (a, d))) = threads a"
  by (simp add: poll_once_eq)

text \<open>The interval of a turn, and the sleep that follows it when \<open>time.sleep\<close> takes
  the interval.\<close>

lemma poll_interval_value:
  "poll_interval L a = (case py_int L (poll_ms_var a) of None \<Rightarrow> 1000 | Some n \<Rightarrow> max n 200)"
  by (simp add: poll_interval_def split: option.split)

lemma poll_loop_turn_phase:
  assumes "i < length (threads a)" "threads a ! i = LoopTest" "polling a"
  shows "threads (fst (poll_loop_turn L tr i (a, d))) ! i
           = (if py_sleep L (poll_interval L a) then Sleeping (poll_interval L a) else Crashed)"
  using assms
  by (simp add: poll_loop_turn_def set_phase_def threads_poll_once Let_def)

text \<open>
  Claim C5. The interval is 1000 ms when \<open>int\<close> raises on the field and otherwise the
  parsed value, raised to 200 ms when it is smaller: a field of 50 gives a sleep of 200 ms.
  But not every value is used for the delay. The \<open>try\<close> of \<open>_poll_loop\<close> covers the
  parsing only, and \<open>time.sleep(poll_ms / 1000.0)\<close> stands outside it: with
  \<open>99999999999999999999\<close> in the field of a connected session the interval is that number,
  the sleep raises \<open>OverflowError\<close>, and the polling thread ends with the \<open>polling\<close>
  flag still set and the session still connected.
\<close>

theorem poll_loop_turn_huge_interval:
  "poll_interval ascii_lib ((init_app ''COM1'')\<lparr>poll_ms_var := ''50''\<rparr>) = 200 \<and>
   threads (fst (poll_loop_turn ascii_lib (sim_transport []) 0
      (connect ascii_lib (sim_transport []) ((init_app ''COM1'')\<lparr>poll_ms_var := ''50''\<rparr>, 0))))
     = [Sleeping 200] \<and>
   poll_interval ascii_lib ((init_app ''COM1'')\<lparr>poll_ms_var := ''99999999999999999999''\<rparr>)
     = 99999999999999999999 \<and>
   threads (fst (poll_loop_turn ascii_lib (sim_transport []) 0
      (connect ascii_lib (sim_transport [])
         ((init_app ''COM1'')\<lparr>poll_ms_var := ''99999999999999999999''\<rparr>, 0))))
     = [Crashed] \<and>
   polling (fst (poll_loop_turn ascii_lib (sim_transport []) 0
      (connect ascii_lib (sim_transport [])
         ((init_app ''COM1'')\<lparr>poll_ms_var := ''99999999999999999999''\<rparr>, 0)))) \<and>
   connected (fst (poll_loop_turn ascii_lib (sim_transport []) 0
      (connect ascii_lib (sim_transport [])
         ((init_app ''COM1'')\<lparr>poll_ms_var := ''99999999999999999999''\<rparr>, 0))))"
proof -
  let ?tr = "sim_transport []"
  have small: "py_int ascii_lib ''50'' = Some 50"
    by (simp add: ascii_lib_def ascii_int_def is_c_space_def is_digit_def)
  have huge: "py_int ascii_lib ''99999999999999999999'' = Some 99999999999999999999"
    by (simp add: ascii_lib_def ascii_int_def is_c_space_def is_digit_def)
  have sleep: "py_sleep ascii_lib 200" "\<not> py_sleep ascii_lib 99999999999999999999"
    by (simp_all add: ascii_lib_def ascii_sleep_def)
  have fields: "py_int ascii_lib ''19200'' = Some 19200" "py_int ascii_lib ''1'' = Some 1"
    "py_strip ascii_lib ''COM1'' = ''COM1''" "py_upper ascii_lib (py_strip ascii_lib ''E'') = ''E''"
    by (simp_all add: ascii_lib_def ascii_int_def ascii_strip_def ascii_upper_def is_space_def
          is_c_space_def is_digit_def)
  have conn: "threads (fst (connect ascii_lib ?tr ((init_app ''COM1'')\<lparr>poll_ms_var := v\<rparr>, 0)))
        = [LoopTest] \<and>
      polling (fst (connect ascii_lib ?tr ((init_app ''COM1'')\<lparr>poll_ms_var := v\<rparr>, 0))) \<and>
      connected (fst (connect ascii_lib ?tr ((init_app ''COM1'')\<lparr>poll_ms_var := v\<rparr>, 0))) \<and>
      poll_ms_var (fst (connect ascii_lib ?tr ((init_app ''COM1'')\<lparr>poll_ms_var := v\<rparr>, 0))) = v"
    for v
    by (simp add: connect_def init_app_def fields sim_transport_def log_line_def Let_def)
  have turn: "threads (fst (poll_loop_turn ascii_lib ?tr 0
        (connect ascii_lib ?tr ((init_app ''COM1'')\<lparr>poll_ms_var := v\<rparr>, 0))))
      = [if py_sleep ascii_lib (poll_interval ascii_lib
              (fst (connect ascii_lib ?tr ((init_app ''COM1'')\<lparr>poll_ms_var := v\<rparr>, 0))))
         then Sleeping (poll_interval ascii_lib
              (fst (connect ascii_lib ?tr ((init_app ''COM1'')\<lparr>poll_ms_var := v\<rparr>, 0))))
         else Crashed] \<and>
      polling (fst (poll_loop_turn ascii_lib ?tr 0
        (connect ascii_lib ?tr ((init_app ''COM1'')\<lparr>poll_ms_var := v\<rparr>, 0)))) \<and>
      connected (fst (poll_loop_turn ascii_lib ?tr 0
        (connect ascii_lib ?tr ((init_app ''COM1'')\<lparr>poll_ms_var := v\<rparr>, 0))))"
    for v
    using conn [of v]
    by (cases "connect ascii_lib ?tr ((init_app ''COM1'')\<lparr>poll_ms_var := v\<rparr>, 0)")
       (simp add: poll_loop_turn_def set_phase_def poll_once_eq Let_def)
  have i50: "poll_interval ascii_lib a = 200" if "poll_ms_var a = ''50''" for a
    using that small by (simp add: poll_interval_def)
  have ihuge: "poll_interval ascii_lib a = 99999999999999999999"
    if "poll_ms_var a = ''99999999999999999999''" for a
    using that huge by (simp add: poll_interval_def)
  have a: "poll_interval ascii_lib ((init_app ''COM1'')\<lparr>poll_ms_var := ''50''\<rparr>) = 200"
    by (rule i50) simp
  have b: "poll_interval ascii_lib ((init_app ''COM1'')\<lparr>poll_ms_var := ''99999999999999999999''\<rparr>)
      = 99999999999999999999"
    by (rule ihuge) simp
  from conn [of "''50''"] have c50: "poll_interval ascii_lib
      (fst (connect ascii_lib ?tr ((init_app ''COM1'')\<lparr>poll_ms_var := ''50''\<rparr>, 0))) = 200"
    by (intro i50) simp
  from conn [of "''99999999999999999999''"] have chuge: "poll_interval ascii_lib
      (fst (connect ascii_lib ?tr ((init_app ''COM1'')\<lparr>poll_ms_var := ''99999999999999999999''\<rparr>, 0)))
      = 99999999999999999999"
    by (intro ihuge) simp
  from turn [of "''50''"] turn [of "''99999999999999999999''"] a b sleep
  show ?thesis
    by (simp only: c50 chuge if_True if_False)
qed

section \<open>The scenario of the specification\<close>

text \<open>
  Claim C7, as stated: the words \<open>0x4248, 0xF5C3\<close> decode, without word swap, to about
  50.48. They decode to the float with the pattern \<open>0x4248F5C3\<close>, whose value is
  \<open>13170115 / 262144 = 50.2400016784668\<close>, more than 0.23 away from 50.48 (the pattern of
  50.48 is \<open>0x4249EB85\<close>).
\<close>

theorem decode_4248F5C3_counterexample:
  "decode_float32 (Some [0x4248, 0xF5C3]) False
     = Inr (Some \<lparr>sign = 0, exponent = 132, fraction = 0x48F5C3\<rparr>) \<and>
   float32_value \<lparr>sign = 0, exponent = 132, fraction = 0x48F5C3\<rparr> = Some (13170115 / 262144) \<and>
   (0.23 :: real) < \<bar>13170115 / 262144 - 50.48\<bar>"
  by (simp add: decode_two_or_more float32_of_pattern_def quiet_nan_def float32_value_def)

text \<open>
  Claim C7, amended. The words \<open>0x4248, 0xF5C3\<close> decode, without word swap, to the float
  with the pattern \<open>0x4248F5C3\<close>; its value is about 50.24. A cycle over the one register of
  the scenario, on a transport that answers with these words, publishes this float as the
  cell of index 0, with status \<open>Ok\<close>.
\<close>

theorem decode_4248F5C3_value:
  "decode_float32 (Some [0x4248, 0xF5C3]) False
     = Inr (Some \<lparr>sign = 0, exponent = 132, fraction = 0x48F5C3\<rparr>) \<and>
   float32_bits \<lparr>sign = 0, exponent = 132, fraction = 0x48F5C3\<rparr> = 0x4248F5C3 \<and>
   float32_value \<lparr>sign = 0, exponent = 132, fraction = 0x48F5C3\<rparr> = Some (13170115 / 262144) \<and>
   \<bar>13170115 / 262144 - 50.24\<bar> < (0.00001 :: real) \<and>
   published (a\<lparr>regs := [mk_reg 3053 ''Active power total'' ''kW'' 4], swap_words_var := False\<rparr>)
     (fst (poll_once L (sim_transport [Registers (Some [0x4248, 0xF5C3])])
        (a\<lparr>regs := [mk_reg 3053 ''Active power total'' ''kW'' 4], swap_words_var := False\<rparr>, 0)))
     = [(0, Formatted \<lparr>sign = 0, exponent = 132, fraction = 0x48F5C3\<rparr> 1)] \<and>
   result_status (Formatted \<lparr>sign = 0, exponent = 132, fraction = 0x48F5C3\<rparr> 1) = Ok"
proof -
  have d: "decode_float32 (Some [0x4248, 0xF5C3]) False
     = Inr (Some \<lparr>sign = 0, exponent = 132, fraction = 0x48F5C3\<rparr>)"
    by (simp add: decode_two_or_more float32_of_pattern_def quiet_nan_def)
  have b: "float32_bits \<lparr>sign = 0, exponent = 132, fraction = 0x48F5C3\<rparr> = 0x4248F5C3"
    by (simp add: float32_bits_def)
  have v: "float32_value \<lparr>sign = 0, exponent = 132, fraction = 0x48F5C3\<rparr> = Some (13170115 / 262144)"
    by (simp add: float32_value_def)
  have c: "\<bar>13170115 / 262144 - 50.24\<bar> < (0.00001 :: real)"
    by simp
  have p: "published (a\<lparr>regs := [mk_reg 3053 ''Active power total'' ''kW'' 4], swap_words_var := False\<rparr>)
     (fst (poll_once L (sim_transport [Registers (Some [0x4248, 0xF5C3])])
        (a\<lparr>regs := [mk_reg 3053 ''Active power total'' ''kW'' 4], swap_words_var := False\<rparr>, 0)))
     = [(0, Formatted \<lparr>sign = 0, exponent = 132, fraction = 0x48F5C3\<rparr> 1)]"
    by (simp add: published_poll_once sim_transport_def d mk_reg_def)
  from d b v c p show ?thesis
    by simp
qed

section \<open>Connecting\<close>

lemmas ascii_defs = ascii_lib_def ascii_int_def ascii_strip_def ascii_upper_def is_space_def
  is_c_space_def is_digit_def ascii_sleep_def

text \<open>
  Claim C6, as stated: \<open>_connect\<close> refuses a baud rate outside the supported set
  \<open>4800, 9600, 19200, 38400\<close>. The function only converts the field with \<open>int\<close>: with
  115200 in the field it opens the port and starts the polling thread. (The set is what
  the read-only selection box offers; \<open>_connect\<close> does not check it.)
\<close>

theorem connect_unlisted_baud_counterexample:
  "py_int ascii_lib (baud_var ((init_app ''COM1'')\<lparr>baud_var := ''115200''\<rparr>)) = Some 115200 \<and>
   (115200 :: int) \<notin> {4800, 9600, 19200, 38400} \<and>
   connect ascii_lib (sim_transport []) ((init_app ''COM1'')\<lparr>baud_var := ''115200''\<rparr>, 0)
     = ((init_app ''COM1'')
          \<lparr>baud_var := ''115200'',
           client := Some \<lparr>port = ''COM1'', baudrate = 115200, parity = ''E'', stopbits = 1,
                           bytesize = 8, timeout = 1\<rparr>,
           connected := True, connect_btn := Disabled, disconnect_btn := Normal,
           status_var := Connected ''COM1'' 115200 ''E'' 1, log_text := [ConnectedOK],
           polling := True, poll_thread := Some 0, threads := [LoopTest]\<rparr>, 0)"
  by (simp add: connect_def init_app_def ascii_defs sim_transport_def log_line_def Let_def)

text \<open>
  Claim C6, amended. When the session is not connected and the baud field or the slave
  field is not an integer, or the slave id is outside \<open>1 .. 247\<close>, or the parity, stripped
  and upper-cased, is not one of \<open>E, O, N\<close>, then \<open>_connect\<close> only shows an error dialog:
  the transport is not touched, no client is stored, the session stays unconnected, the
  polling flag is unchanged and no thread is started.
\<close>

theorem connect_rejects_invalid:
  assumes "\<not> connected a"
    and "py_int L (baud_var a) = None \<or> py_int L (slave_var a) = None \<or>
         (\<exists>sl. py_int L (slave_var a) = Some sl \<and> (sl < 1 \<or> 247 < sl)) \<or>
         py_upper L (py_strip L (parity_var a)) \<notin> {''E'', ''O'', ''N''}"
  shows "(\<exists>m. m \<noteq> FailedToOpen \<and> connect L tr (a, d) = (showerror m a, d)) \<and>
         client (fst (connect L tr (a, d))) = client a \<and>
         \<not> connected (fst (connect L tr (a, d))) \<and>
         polling (fst (connect L tr (a, d))) = polling a \<and>
         threads (fst (connect L tr (a, d))) = threads a \<and>
         snd (connect L tr (a, d)) = d"
proof -
  have ex: "\<exists>m. m \<noteq> FailedToOpen \<and> connect L tr (a, d) = (showerror m a, d)"
  proof (cases "py_strip L (port_var a) = []")
    case True
    with assms(1) have "connect L tr (a, d) = (showerror SelectPort a, d)"
      by (simp add: connect_def)
    then show ?thesis by blast
  next
    case port: False
    show ?thesis
    proof (cases "py_int L (baud_var a)")
      case None
      with assms(1) port have "connect L tr (a, d) = (showerror InvalidSettings a, d)"
        by (simp add: connect_def)
      then show ?thesis by blast
    next
      case baud: (Some b)
      show ?thesis
      proof (cases "py_int L (slave_var a)")
        case None
        with assms(1) port baud have "connect L tr (a, d) = (showerror InvalidSettings a, d)"
          by (simp add: connect_def)
        then show ?thesis by blast
      next
        case slave: (Some sl)
        show ?thesis
        proof (cases "1 \<le> sl \<and> sl \<le> 247")
          case False
          with assms(1) port baud slave
          have "connect L tr (a, d) = (showerror InvalidSettings a, d)"
            by (simp add: connect_def)
          then show ?thesis by blast
        next
          case True
          with assms(2) baud slave
          have "py_upper L (py_strip L (parity_var a)) \<notin> {''E'', ''O'', ''N''}"
            by auto
          with assms(1) port baud slave True
          have "connect L tr (a, d) = (showerror ParityMustBe a, d)"
            by (simp add: connect_def Let_def)
          then show ?thesis by blast
        qed
      qed
    qed
  qed
  then obtain m where m: "connect L tr (a, d) = (showerror m a, d)"
    by blast
  from ex assms(1) show ?thesis
    by (simp add: m showerror_def)
qed

theorem connect_rejects_invalid_witness:
  "\<not> connected ((init_app ''COM1'')\<lparr>slave_var := ''248''\<rparr>) \<and>
   py_int ascii_lib (slave_var ((init_app ''COM1'')\<lparr>slave_var := ''248''\<rparr>)) = Some 248 \<and>
   client (fst (connect ascii_lib (sim_transport []) ((init_app ''COM1'')\<lparr>slave_var := ''248''\<rparr>, 0))) = None \<and>
   \<not> polling (fst (connect ascii_lib (sim_transport []) ((init_app ''COM1'')\<lparr>slave_var := ''248''\<rparr>, 0))) \<and>
   threads (fst (connect ascii_lib (sim_transport []) ((init_app ''COM1'')\<lparr>slave_var := ''248''\<rparr>, 0))) = [] \<and>
   snd (connect ascii_lib (sim_transport []) ((init_app ''COM1'')\<lparr>slave_var := ''248''\<rparr>, 0)) = 0"
proof -
  let ?a = "(init_app ''COM1'')\<lparr>slave_var := ''248''\<rparr>"
  have c: "\<not> connected ?a"
    by (simp add: init_app_def)
  have sl: "py_int ascii_lib (slave_var ?a) = Some 248"
    by (simp add: init_app_def ascii_defs)
  then have h: "py_int ascii_lib (baud_var ?a) = None \<or> py_int ascii_lib (slave_var ?a) = None \<or>
         (\<exists>sl. py_int ascii_lib (slave_var ?a) = Some sl \<and> (sl < 1 \<or> 247 < sl)) \<or>
         py_upper ascii_lib (py_strip ascii_lib (parity_var ?a)) \<notin> {''E'', ''O'', ''N''}"
    by simp
  have i: "client ?a = None \<and> \<not> polling ?a \<and> threads ?a = []"
    by (simp add: init_app_def)
  from connect_rejects_invalid [of ?a ascii_lib "sim_transport []" 0, OF c h] c sl i
  show ?thesis
    by simp
qed

section \<open>Disconnecting\<close>

text \<open>
  Claim C8. A call of \<open>_disconnect\<close> should return only when the background thread has
  exited, so that a connect may follow at once. The code clears the flag, sleeps 0.1 s and
  closes the client; it never joins the thread. After a connect and one turn of the loop
  the thread sleeps for 1000 ms; \<open>_disconnect\<close> returns while it still has 900 ms to
  sleep, and a connect right after it sets the flag again and starts a second thread beside
  the first, which goes on polling when it wakes: two threads on one client.
\<close>

theorem disconnect_leaves_thread_running:
  "threads (fst (poll_loop_turn ascii_lib (sim_transport []) 0
       (connect ascii_lib (sim_transport []) (init_app ''COM1'', 0)))) = [Sleeping 1000] \<and>
   threads (fst (disconnect (sim_transport [])
       (poll_loop_turn ascii_lib (sim_transport []) 0
          (connect ascii_lib (sim_transport []) (init_app ''COM1'', 0))))) = [Sleeping 900] \<and>
   threads (fst (connect ascii_lib (sim_transport [])
       (disconnect (sim_transport [])
          (poll_loop_turn ascii_lib (sim_transport []) 0
             (connect ascii_lib (sim_transport []) (init_app ''COM1'', 0)))))) = [Sleeping 900, LoopTest] \<and>
   polling (fst (connect ascii_lib (sim_transport [])
       (disconnect (sim_transport [])
          (poll_loop_turn ascii_lib (sim_transport []) 0
             (connect ascii_lib (sim_transport []) (init_app ''COM1'', 0))))))"
proof -
  let ?tr = "sim_transport []"
  have fields: "py_int ascii_lib ''19200'' = Some 19200" "py_int ascii_lib ''1'' = Some 1"
    "py_int ascii_lib ''1000'' = Some 1000" "py_sleep ascii_lib 1000"
    "py_strip ascii_lib ''COM1'' = ''COM1''" "py_upper ascii_lib (py_strip ascii_lib ''E'') = ''E''"
    by (simp_all add: ascii_defs)
  show ?thesis
    by (simp add: connect_def init_app_def fields sim_transport_def log_line_def Let_def
          poll_loop_turn_def poll_once_eq set_phase_def poll_interval_def disconnect_def)
qed

text \<open>What every call of \<open>_disconnect\<close> does to the session itself: the client is closed, if
  there was one, and dropped, the session is unconnected and the flag is cleared; a second
  call changes none of this and does not touch the transport, it only adds a log line.\<close>

lemma disconnect_session_state:
  "client (fst (disconnect tr s)) = None \<and>
   \<not> connected (fst (disconnect tr s)) \<and>
   \<not> polling (fst (disconnect tr s)) \<and>
   status_var (fst (disconnect tr s)) = NotConnected \<and>
   snd (disconnect tr s) = (case client (fst s) of None \<Rightarrow> snd s | Some c \<Rightarrow> t_close tr (snd s)) \<and>
   snd (disconnect tr (disconnect tr s)) = snd (disconnect tr s) \<and>
   (fst (disconnect tr (disconnect tr s)))\<lparr>log_text := [], threads := []\<rparr>
     = (fst (disconnect tr s))\<lparr>log_text := [], threads := []\<rparr> \<and>
   log_text (fst (disconnect tr (disconnect tr s))) = log_text (fst (disconnect tr s)) @ [Disconnected]"
  by (simp add: disconnect_def log_line_def Let_def)

end
